theory Spec2Isabelle
  imports Main
begin

section \<open>Python values used by sync2jira\<close>

text \<open>
  A Python \<open>str\<close> is a sequence of Unicode code points, and \<open>len\<close> counts code points.
  It is modelled as a list of natural numbers, one per code point; \<open>ustr\<close> reads an
  ASCII literal into that representation.
\<close>

type_synonym ustring = "nat list"

definition ustr :: "string \<Rightarrow> ustring" where
  "ustr s = map of_char s"

text \<open>
  An instance attribute that \<open>__init__\<close> may or may not have assigned. Reading an
  attribute that was never assigned raises \<open>AttributeError\<close>.
\<close>

datatype 'a attr = Unset | Assigned 'a

text \<open>The exceptions that the modelled code can meet.\<close>

datatype py_error = KeyError | AttributeError | TypeError | UnicodeDecodeError
  | JIRAError | OtherError

fun getattr :: "'a attr \<Rightarrow> py_error + 'a" where
  "getattr Unset = Inl AttributeError"
| "getattr (Assigned v) = Inr v"

text \<open>\<open>sub in s\<close> for two strings: \<open>sub\<close> occurs in \<open>s\<close> as a contiguous run.\<close>

fun py_in :: "ustring \<Rightarrow> ustring \<Rightarrow> bool" where
  "py_in sub [] = (sub = [])"
| "py_in sub (c # cs) = (take (length sub) (c # cs) = sub \<or> py_in sub cs)"

text \<open>\<open>str(n)\<close> for a non-negative integer: its decimal digits.\<close>

fun str_nat :: "nat \<Rightarrow> ustring" where
  "str_nat n = (if n < 10 then [48 + n] else str_nat (n div 10) @ [48 + n mod 10])"

declare str_nat.simps [simp del]

section \<open>intermediary.py\<close>

subsection \<open>trimCommentBody\<close>

definition trimCommentBody :: "ustring \<Rightarrow> ustring" where
  "trimCommentBody commentBody =
     (if length commentBody > 65000 then take 65000 commentBody else commentBody)"

subsection \<open>Content scrubbing\<close>

text \<open>
  \<open>content.encode('ascii', errors='replace')\<close>: every code point that ASCII cannot
  represent becomes one \<open>?\<close> byte (63); the others are kept.
\<close>

definition encode_ascii_replace :: "ustring \<Rightarrow> nat list" where
  "encode_ascii_replace s = map (\<lambda>c. if c < 128 then c else 63) s"

text \<open>\<open>bytes.decode('ascii')\<close>: raises \<open>UnicodeDecodeError\<close> on a byte above 127.\<close>

definition decode_ascii :: "nat list \<Rightarrow> py_error + ustring" where
  "decode_ascii bs = (if list_all (\<lambda>b. b < 128) bs then Inr bs else Inl UnicodeDecodeError)"

text \<open>\<open>s.replace(c, '')\<close> for a single character \<open>c\<close>: every occurrence is dropped.\<close>

definition remove_char :: "nat \<Rightarrow> ustring \<Rightarrow> ustring" where
  "remove_char c s = filter (\<lambda>x. x \<noteq> c) s"

text \<open>
  The two statements of both constructors that scrub \<open>content\<close>: encode with
  replacement, decode, then remove every backslash (code point 92).
\<close>

definition scrub_content :: "ustring \<Rightarrow> py_error + ustring" where
  "scrub_content content =
     (case decode_ascii (encode_ascii_replace content) of
        Inl e \<Rightarrow> Inl e
      | Inr decoded \<Rightarrow> Inr (remove_char 92 decoded))"

subsection \<open>Comments and configuration\<close>

text \<open>The comment dictionaries that \<open>from_github\<close> builds.\<close>

record comment =
  c_author :: ustring
  c_name :: ustring
  c_body :: ustring
  c_id :: nat
  c_date_created :: ustring
  c_changed :: "ustring option"

text \<open>
  A routing entry \<open>config['sync2jira']['map'][source][upstream]\<close>. The key
  \<open>pr_updates\<close> is optional (the code reads it with \<open>.get\<close>); when present it is a
  list of dictionaries from a transition name to a status name.
\<close>

record downstream_cfg =
  d_project :: ustring
  d_pr_updates :: "(ustring \<rightharpoonup> ustring) list option"

text \<open>
  The configuration dictionary, with the keys that the code reads:
  \<open>config['sync2jira']['testing']\<close>, \<open>config['sync2jira']['map']\<close> (source, then
  upstream project, to routing entry) and \<open>config['mapping']\<close>, which maps a GitHub
  login to the \<open>jira\<close> account id of its entry.
\<close>

record config =
  cfg_testing :: bool
  cfg_map :: "ustring \<rightharpoonup> (ustring \<rightharpoonup> downstream_cfg)"
  cfg_mapping :: "ustring \<rightharpoonup> ustring"

text \<open>
  \<open>config['sync2jira']['map'][source][upstream]\<close>: a missing key at either level
  raises \<open>KeyError\<close>.
\<close>

definition lookup_routing :: "config \<Rightarrow> ustring \<Rightarrow> ustring \<Rightarrow> py_error + downstream_cfg" where
  "lookup_routing config source upstream =
     (case cfg_map config source of
        None \<Rightarrow> Inl KeyError
      | Some projects \<Rightarrow>
          (case projects upstream of
             None \<Rightarrow> Inl KeyError
           | Some d \<Rightarrow> Inr d))"

subsection \<open>Issue\<close>

text \<open>
  The attributes of an \<open>Issue\<close> instance. The first eight are assigned by every run
  of \<open>__init__\<close>; the next seven only inside \<open>if content is not None\<close>. The last
  three are never assigned by \<open>__init__\<close>: \<open>sync_with_jira\<close> reads \<open>match\<close> and
  \<open>suffix\<close> and assigns \<open>jira_key\<close>, so they are set only if a caller has assigned
  them to the instance. \<open>jira_key\<close> holds what \<open>matcher\<close> returned, \<open>None\<close> included.
\<close>

record Issue =
  issue_source :: ustring
  issue__title :: ustring
  issue_url :: ustring
  issue_upstream :: ustring
  issue_comments :: "comment list"
  issue_tags :: "ustring list"
  issue_fixVersion :: "ustring option list"
  issue_priority :: "ustring option"
  issue_content :: "ustring attr"
  issue_reporter :: "ustring attr"
  issue_assignee :: "ustring list attr"
  issue_status :: "ustring option attr"
  issue_id :: "ustring attr"
  issue_upstream_id :: "nat attr"
  issue_downstream :: "downstream_cfg attr"
  issue_jira_key :: "ustring list option attr"
  issue_match :: "ustring list attr"
  issue_suffix :: "ustring attr"

definition Issue_init ::
  "ustring \<Rightarrow> ustring \<Rightarrow> ustring \<Rightarrow> ustring \<Rightarrow> comment list \<Rightarrow> config \<Rightarrow> ustring list
   \<Rightarrow> ustring option list \<Rightarrow> ustring option \<Rightarrow> ustring option \<Rightarrow> ustring \<Rightarrow> ustring list
   \<Rightarrow> ustring option \<Rightarrow> nat \<Rightarrow> nat \<Rightarrow> downstream_cfg option \<Rightarrow> py_error + Issue" where
  "Issue_init source title url upstream comments config tags fixVersion priority content
     reporter assignee status id' upstream_id downstream =
     (let self = \<lparr>issue_source = source, issue__title = title, issue_url = url,
                  issue_upstream = upstream, issue_comments = comments, issue_tags = tags,
                  issue_fixVersion = fixVersion, issue_priority = priority,
                  issue_content = Unset, issue_reporter = Unset, issue_assignee = Unset,
                  issue_status = Unset, issue_id = Unset, issue_upstream_id = Unset,
                  issue_downstream = Unset, issue_jira_key = Unset, issue_match = Unset,
                  issue_suffix = Unset\<rparr>
      in case content of
           None \<Rightarrow> Inr self
         | Some c \<Rightarrow>
             (case scrub_content c of
                Inl e \<Rightarrow> Inl e
              | Inr scrubbed \<Rightarrow>
                  (let self = self\<lparr>issue_content := Assigned scrubbed,
                                   issue_reporter := Assigned reporter,
                                   issue_assignee := Assigned assignee,
                                   issue_status := Assigned status,
                                   issue_id := Assigned (str_nat id'),
                                   issue_upstream_id := Assigned upstream_id\<rparr>
                   in case downstream of
                        None \<Rightarrow>
                          (case lookup_routing config source upstream of
                             Inl e \<Rightarrow> Inl e
                           | Inr d \<Rightarrow> Inr (self\<lparr>issue_downstream := Assigned d\<rparr>))
                      | Some d \<Rightarrow> Inr (self\<lparr>issue_downstream := Assigned d\<rparr>))))"

text \<open>The \<open>title\<close> property: \<open>'[%s] %s' % (self.upstream, self._title)\<close>.\<close>

definition Issue_title :: "Issue \<Rightarrow> ustring" where
  "Issue_title self = ustr ''['' @ issue_upstream self @ ustr ''] '' @ issue__title self"

subsection \<open>PR\<close>

text \<open>
  The attributes of a \<open>PR\<close> instance. \<open>__init__\<close> assigns all of them on every path
  that returns, so none is optional; \<open>content\<close> is a string or \<open>None\<close>.
\<close>

record PR =
  pr_source :: ustring
  pr_jira_key :: "ustring list"
  pr__title :: ustring
  pr_url :: ustring
  pr_upstream :: ustring
  pr_comments :: "comment list"
  pr_priority :: "ustring option"
  pr_content :: "ustring option"
  pr_reporter :: ustring
  pr_assignee :: "ustring list"
  pr_status :: "ustring option"
  pr_id :: ustring
  pr_suffix :: ustring
  pr_match :: "ustring list"
  pr_downstream :: downstream_cfg

text \<open>
  \<open>if content:\<close> is false for \<open>None\<close> and for the empty string; both leave
  \<open>self.content = None\<close>.
\<close>

definition PR_init ::
  "ustring \<Rightarrow> ustring list \<Rightarrow> ustring \<Rightarrow> ustring \<Rightarrow> ustring \<Rightarrow> config \<Rightarrow> comment list
   \<Rightarrow> ustring option \<Rightarrow> ustring option \<Rightarrow> ustring \<Rightarrow> ustring list \<Rightarrow> ustring option
   \<Rightarrow> nat \<Rightarrow> ustring \<Rightarrow> ustring list \<Rightarrow> downstream_cfg option \<Rightarrow> py_error + PR" where
  "PR_init source jira_key title url upstream config comments priority content reporter
     assignee status id' suffix match downstream =
     (case (case content of
              None \<Rightarrow> Inr None
            | Some c \<Rightarrow>
                if c \<noteq> [] then
                  (case scrub_content c of Inl e \<Rightarrow> Inl e | Inr scrubbed \<Rightarrow> Inr (Some scrubbed))
                else Inr None) of
        Inl e \<Rightarrow> Inl e
      | Inr self_content \<Rightarrow>
          (case (case downstream of
                   None \<Rightarrow> lookup_routing config source upstream
                 | Some d \<Rightarrow> Inr d) of
             Inl e \<Rightarrow> Inl e
           | Inr self_downstream \<Rightarrow>
               Inr \<lparr>pr_source = source, pr_jira_key = jira_key, pr__title = title,
                    pr_url = url, pr_upstream = upstream, pr_comments = comments,
                    pr_priority = priority, pr_content = self_content,
                    pr_reporter = reporter, pr_assignee = assignee, pr_status = status,
                    pr_id = str_nat id', pr_suffix = suffix, pr_match = match,
                    pr_downstream = self_downstream\<rparr>))"

definition PR_title :: "PR \<Rightarrow> ustring" where
  "PR_title self = ustr ''['' @ pr_upstream self @ ustr ''] '' @ pr__title self"

subsection \<open>matcher\<close>

text \<open>
  The patterns are \<open>str\<close> patterns, so \<open>\w\<close> and \<open>\d\<close> follow Python's Unicode
  tables. Below code point 128 they are \<open>[A-Za-z0-9_]\<close> and \<open>[0-9]\<close>; above, the
  tables of the Python runtime decide, and they are taken as a parameter.
\<close>

record unicode_db =
  u_alnum :: "nat \<Rightarrow> bool"
  u_decimal :: "nat \<Rightarrow> bool"

definition is_digit :: "unicode_db \<Rightarrow> nat \<Rightarrow> bool" where
  "is_digit U c = (if c < 128 then 48 \<le> c \<and> c \<le> 57 else u_decimal U c)"

definition is_word :: "unicode_db \<Rightarrow> nat \<Rightarrow> bool" where
  "is_word U c =
     (if c < 128 then (48 \<le> c \<and> c \<le> 57) \<or> (65 \<le> c \<and> c \<le> 90) \<or> c = 95 \<or> (97 \<le> c \<and> c \<le> 122)
      else u_alnum U c)"

text \<open>
  A backtracking matcher in continuation style. \<open>star_then p k\<close> is a greedy \<open>[p]*\<close>
  followed by the rest of the pattern \<open>k\<close>: it first tries to take one more character
  and falls back to taking none. \<open>char_then x k\<close> is the literal \<open>x\<close> followed by
  \<open>k\<close>. A match returns the text left after it.
\<close>

primrec star_then :: "(nat \<Rightarrow> bool) \<Rightarrow> (ustring \<Rightarrow> ustring option) \<Rightarrow> ustring \<Rightarrow> ustring option" where
  "star_then p k [] = k []"
| "star_then p k (c # cs) =
     (if p c then (case star_then p k cs of Some r \<Rightarrow> Some r | None \<Rightarrow> k (c # cs))
      else k (c # cs))"

definition char_then :: "nat \<Rightarrow> (ustring \<Rightarrow> ustring option) \<Rightarrow> ustring \<Rightarrow> ustring option" where
  "char_then x k s = (case s of [] \<Rightarrow> None | c # cs \<Rightarrow> if c = x then k cs else None)"

text \<open>The pattern \<open>[\w]*-[\d]*\<close> matched at the start of \<open>s\<close> (45 is the dash).\<close>

definition ticket_pattern :: "unicode_db \<Rightarrow> ustring \<Rightarrow> ustring option" where
  "ticket_pattern U s = star_then (is_word U) (char_then 45 (star_then (is_digit U) Some)) s"

lemma star_then_length:
  assumes "\<And>t r. k t = Some r \<Longrightarrow> length r + n \<le> length t"
  shows "star_then p k s = Some r \<Longrightarrow> length r + n \<le> length s"
proof (induction s)
  case Nil
  then show ?case using assms [of "[]" r] by simp
next
  case (Cons c cs)
  show ?case
  proof (cases "p c \<and> star_then p k cs \<noteq> None")
    case True
    then have "star_then p k cs = Some r" using Cons.prems by auto
    then show ?thesis using Cons.IH by simp
  next
    case False
    then have "k (c # cs) = Some r" using Cons.prems by (auto split: if_splits option.splits)
    then show ?thesis using assms by blast
  qed
qed

lemma ticket_pattern_shorter: "ticket_pattern U s = Some r \<Longrightarrow> length r < length s"
proof -
  assume m: "ticket_pattern U s = Some r"
  have digits: "\<And>t r. star_then (is_digit U) Some t = Some r \<Longrightarrow> length r + 0 \<le> length t"
    by (rule star_then_length [where k = Some]) simp_all
  have dash: "\<And>t r. char_then 45 (star_then (is_digit U) Some) t = Some r \<Longrightarrow> length r + 1 \<le> length t"
    using digits by (fastforce simp: char_then_def split: list.splits if_splits)
  have "length r + 1 \<le> length s"
    using m dash unfolding ticket_pattern_def by (rule star_then_length [rotated])
  then show ?thesis by simp
qed

text \<open>
  \<open>re.findall("([\w]*-[\d]*)", s)\<close>: the matches from left to right, each search
  starting where the last match ended. A match holds a dash, so it is never empty; at
  the end of the text no match is possible.
\<close>

function re_findall_ticket :: "unicode_db \<Rightarrow> ustring \<Rightarrow> ustring list" where
  "re_findall_ticket U [] = []"
| "re_findall_ticket U (c # cs) =
     (case ticket_pattern U (c # cs) of
        None \<Rightarrow> re_findall_ticket U cs
      | Some rest \<Rightarrow>
          take (length (c # cs) - length rest) (c # cs) # re_findall_ticket U rest)"
  by pat_completeness auto
termination
  by (relation "measure (\<lambda>(U, s). length s)") (auto dest: ticket_pattern_shorter)

text \<open>\<open>re.search("[\w]*-[\d]*", s)\<close> as a truth value: a match at some position.\<close>

fun re_search_ticket :: "unicode_db \<Rightarrow> ustring \<Rightarrow> bool" where
  "re_search_ticket U [] = (ticket_pattern U [] \<noteq> None)"
| "re_search_ticket U (c # cs) = (ticket_pattern U (c # cs) \<noteq> None \<or> re_search_ticket U cs)"

text \<open>\<open>re.search("\d", s)\<close> as a truth value.\<close>

fun re_search_digit :: "unicode_db \<Rightarrow> ustring \<Rightarrow> bool" where
  "re_search_digit U [] = False"
| "re_search_digit U (c # cs) = (is_digit U c \<or> re_search_digit U cs)"

text \<open>
  \<open>matcher\<close>. The function ends without a \<open>return\<close> when \<open>all_data\<close> is empty, which
  yields \<open>None\<close>, so the result is optional. \<open>list(set(...))\<close> drops duplicates and
  leaves the order to the runtime; \<open>remdups\<close> fixes one order.
\<close>

definition matcher :: "unicode_db \<Rightarrow> ustring option \<Rightarrow> comment list \<Rightarrow> ustring list option" where
  "matcher U content comments =
     (let all_data = foldl (\<lambda>all_data comment. all_data @ ustr '' '' @ c_body comment)
                       (ustr '' '') (rev comments);
          all_data = (case content of
                        None \<Rightarrow> all_data
                      | Some c \<Rightarrow> if c \<noteq> [] then all_data @ c else all_data)
      in if all_data \<noteq> [] then
           (let tickets = re_findall_ticket U all_data;
                jira_tickets = remdups (filter (\<lambda>i. length i \<noteq> 1) tickets);
                final_list = (if jira_tickets \<noteq> []
                              then filter (\<lambda>m. re_search_ticket U m \<and> re_search_digit U m) jira_tickets
                              else [])
            in Some final_list)
         else None)"

section \<open>downstream_pr.py\<close>

subsection \<open>The downstream tracker\<close>

text \<open>
  The tracker is reached only through the JIRA client. A ticket holds its remote
  links, the bodies of its comments and its status; the state of the tracker is the
  tickets by handle, together with the calls made to it so far and the warnings that
  the code has logged.
\<close>

type_synonym ticket_id = nat

record remote_link =
  link_url :: ustring
  link_title :: ustring

record ticket =
  t_links :: "remote_link list"
  t_comments :: "ustring list"
  t_status :: ustring

datatype api_call =
    GetClient
  | SearchIssues ustring
  | RemoteLinks ticket_id
  | Comments ticket_id
  | AttachLink ticket_id ustring ustring
  | AddComment ticket_id ustring
  | ChangeStatus ticket_id ustring

record tracker =
  tickets :: "ticket_id \<Rightarrow> ticket"
  calls :: "api_call list"
  warnings :: "ustring list"

text \<open>
  What the server decides: the answer to a search (a list of tickets, or an
  exception), which may depend on everything that happened before, and which status
  can be reached from which.
\<close>

record jira_server =
  search :: "tracker \<Rightarrow> ustring \<Rightarrow> py_error + ticket_id list"
  reachable :: "ustring \<Rightarrow> ustring \<Rightarrow> bool"

definition log_call :: "api_call \<Rightarrow> tracker \<Rightarrow> tracker" where
  "log_call c w = w\<lparr>calls := calls w @ [c]\<rparr>"

definition log_warning :: "ustring \<Rightarrow> tracker \<Rightarrow> tracker" where
  "log_warning msg w = w\<lparr>warnings := warnings w @ [msg]\<rparr>"

text \<open>
  Modelled from the spec: \<open>d_issue.get_jira_client\<close> is in \<open>downstream_issue.py\<close>,
  which is not among the sources. It obtains the tracker client.
\<close>

definition get_jira_client :: "tracker \<Rightarrow> tracker" where
  "get_jira_client w = log_call GetClient w"

text \<open>
  The client's \<open>search_issues\<close>, \<open>remote_links\<close>, \<open>comments\<close> and \<open>add_comment\<close>.
  The search can raise, as the server decides. The three calls that \<open>update_jira_issue\<close>
  makes are modelled as returning; what the loop over the keys does when
  \<open>update_jira_issue\<close> raises is stated for any exception of it.
\<close>

definition search_issues :: "jira_server \<Rightarrow> ustring \<Rightarrow> tracker \<Rightarrow> (py_error + ticket_id list) \<times> tracker" where
  "search_issues srv query w = (search srv w query, log_call (SearchIssues query) w)"

definition remote_links :: "ticket_id \<Rightarrow> tracker \<Rightarrow> remote_link list \<times> tracker" where
  "remote_links t w = (t_links (tickets w t), log_call (RemoteLinks t) w)"

definition client_comments :: "ticket_id \<Rightarrow> tracker \<Rightarrow> ustring list \<times> tracker" where
  "client_comments t w = (t_comments (tickets w t), log_call (Comments t) w)"

definition add_comment :: "ticket_id \<Rightarrow> ustring \<Rightarrow> tracker \<Rightarrow> tracker" where
  "add_comment t body w =
     log_call (AddComment t body)
       (w\<lparr>tickets := (tickets w)(t := (tickets w t)\<lparr>t_comments := t_comments (tickets w t) @ [body]\<rparr>)\<rparr>)"

text \<open>
  Modelled from the spec: \<open>d_issue.attach_link\<close> is in \<open>downstream_issue.py\<close>, which
  is not among the sources. It attaches a remote link with the given URL and title to
  the ticket.
\<close>

definition attach_link :: "ticket_id \<Rightarrow> remote_link \<Rightarrow> tracker \<Rightarrow> tracker" where
  "attach_link t l w =
     log_call (AttachLink t (link_url l) (link_title l))
       (w\<lparr>tickets := (tickets w)(t := (tickets w t)\<lparr>t_links := t_links (tickets w t) @ [l]\<rparr>)\<rparr>)"

text \<open>
  Modelled from the spec: \<open>d_issue.change_status\<close> is in \<open>downstream_issue.py\<close>,
  which is not among the sources. It requests the status change; a status that cannot
  be reached from the ticket's current one is logged there and leaves the ticket as it
  is, without an exception for the caller.
\<close>

definition change_status :: "jira_server \<Rightarrow> ticket_id \<Rightarrow> ustring \<Rightarrow> tracker \<Rightarrow> tracker" where
  "change_status srv t status w =
     log_call (ChangeStatus t status)
       (if reachable srv (t_status (tickets w t)) status
        then w\<lparr>tickets := (tickets w)(t := (tickets w t)\<lparr>t_status := status\<rparr>)\<rparr>
        else w)"

subsection \<open>Reading the attributes of the upstream item\<close>

text \<open>
  \<open>sync_with_jira\<close> takes a \<open>PR\<close> or an \<open>Issue\<close> and reads attributes by name. A
  \<open>PR\<close> has them all. For an \<open>Issue\<close>, \<open>url\<close> and the \<open>title\<close> property are
  always there, and the others raise \<open>AttributeError\<close> when they were never assigned.
\<close>

datatype item = PRItem PR | IssueItem Issue

fun item_url :: "item \<Rightarrow> ustring" where
  "item_url (PRItem p) = pr_url p"
| "item_url (IssueItem i) = issue_url i"

fun item_title :: "item \<Rightarrow> ustring" where
  "item_title (PRItem p) = PR_title p"
| "item_title (IssueItem i) = Issue_title i"

fun item_match :: "item \<Rightarrow> py_error + ustring list" where
  "item_match (PRItem p) = Inr (pr_match p)"
| "item_match (IssueItem i) = getattr (issue_match i)"

fun item_suffix :: "item \<Rightarrow> py_error + ustring" where
  "item_suffix (PRItem p) = Inr (pr_suffix p)"
| "item_suffix (IssueItem i) = getattr (issue_suffix i)"

fun item_reporter :: "item \<Rightarrow> py_error + ustring" where
  "item_reporter (PRItem p) = Inr (pr_reporter p)"
| "item_reporter (IssueItem i) = getattr (issue_reporter i)"

fun item_downstream :: "item \<Rightarrow> py_error + downstream_cfg" where
  "item_downstream (PRItem p) = Inr (pr_downstream p)"
| "item_downstream (IssueItem i) = getattr (issue_downstream i)"

fun item_jira_key :: "item \<Rightarrow> py_error + ustring list option" where
  "item_jira_key (PRItem p) = Inr (Some (pr_jira_key p))"
| "item_jira_key (IssueItem i) = getattr (issue_jira_key i)"

subsection \<open>format_comment\<close>

text \<open>
  \<open>get_jira_username_from_github\<close> walks \<open>config['mapping']\<close> and returns the
  \<open>jira\<close> entry stored under the login, or \<open>None\<close> when it falls through.
\<close>

definition get_jira_username_from_github :: "config \<Rightarrow> ustring \<Rightarrow> ustring option" where
  "get_jira_username_from_github config github_login = cfg_mapping config github_login"

text \<open>
  \<open>if ret:\<close> is false for \<open>None\<close> and for the empty string. The title is
  \<open>pr.title.replace(']', '').replace('[', '')\<close>; 93 and 91 are the two brackets.
\<close>

definition format_comment :: "item \<Rightarrow> ustring \<Rightarrow> config \<Rightarrow> py_error + ustring" where
  "format_comment pr pr_suffix' config =
     (case item_reporter pr of
        Inl e \<Rightarrow> Inl e
      | Inr pr_reporter' \<Rightarrow>
          (let ret = get_jira_username_from_github config pr_reporter';
               reporter = (case ret of
                             None \<Rightarrow> pr_reporter'
                           | Some r \<Rightarrow> if r \<noteq> [] then ustr ''[~accountid:'' @ r @ ustr '']''
                                       else pr_reporter');
               title = remove_char 91 (remove_char 93 (item_title pr))
           in Inr (if py_in (ustr ''closed'') pr_suffix' then
                     ustr ''Merge request ['' @ title @ ustr ''|'' @ item_url pr @ ustr ''] was closed.''
                   else if py_in (ustr ''reopened'') pr_suffix' then
                     ustr ''Merge request ['' @ title @ ustr ''|'' @ item_url pr @ ustr ''] was reopened.''
                   else if py_in (ustr ''merged'') pr_suffix' then
                     ustr ''Merge request ['' @ title @ ustr ''|'' @ item_url pr @ ustr ''] was merged!''
                   else
                     reporter @ ustr '' mentioned this issue in '' @
                     ustr ''merge request ['' @ title @ ustr ''| '' @ item_url pr @ ustr ''].'')))"

subsection \<open>issue_link_exists and comment_exists\<close>

fun link_loop :: "remote_link list \<Rightarrow> ustring \<Rightarrow> bool" where
  "link_loop [] url = False"
| "link_loop (issue_link # rest) url = (if link_url issue_link = url then True else link_loop rest url)"

definition issue_link_exists :: "ticket_id \<Rightarrow> item \<Rightarrow> tracker \<Rightarrow> bool \<times> tracker" where
  "issue_link_exists existing pr w =
     (let (ls, w') = remote_links existing w in (link_loop ls (item_url pr), w'))"

fun comment_loop :: "ustring list \<Rightarrow> ustring \<Rightarrow> bool" where
  "comment_loop [] new_comment = False"
| "comment_loop (body # rest) new_comment = (if new_comment = body then True else comment_loop rest new_comment)"

definition comment_exists :: "ticket_id \<Rightarrow> ustring \<Rightarrow> tracker \<Rightarrow> bool \<times> tracker" where
  "comment_exists existing new_comment w =
     (let (cs, w') = client_comments existing w in (comment_loop cs new_comment, w'))"

subsection \<open>update_transition and update_jira_issue\<close>

text \<open>
  \<open>any(name in item for item in updates)\<close> over the dictionaries of \<open>pr_updates\<close>.
\<close>

definition any_has_key :: "ustring \<Rightarrow> (ustring \<rightharpoonup> ustring) list \<Rightarrow> bool" where
  "any_has_key name updates = list_ex (\<lambda>item. item name \<noteq> None) updates"

definition update_transition ::
  "jira_server \<Rightarrow> ticket_id \<Rightarrow> item \<Rightarrow> ustring \<Rightarrow> tracker \<Rightarrow> (py_error + unit) \<times> tracker" where
  "update_transition srv existing pr transition_type w =
     (case item_downstream pr of
        Inl e \<Rightarrow> (Inl e, w)
      | Inr downstream \<Rightarrow>
          (let link_status = filter (\<lambda>transition. transition transition_type \<noteq> None)
                               (case d_pr_updates downstream of None \<Rightarrow> [] | Some us \<Rightarrow> us)
           in case link_status of
                [] \<Rightarrow> (Inr (), w)
              | first # _ \<Rightarrow>
                  (case first transition_type of
                     None \<Rightarrow> (Inl KeyError, w)
                   | Some closed_status \<Rightarrow> (Inr (), change_status srv existing closed_status w))))"

text \<open>
  \<open>update_jira_issue\<close>. The attribute reads that can fail come in the order of the
  source: \<open>downstream\<close>, \<open>suffix\<close>, \<open>reporter\<close> (inside \<open>format_comment\<close>), then
  \<open>jira_key\<close> in the log line before \<open>add_comment\<close>, then \<open>suffix\<close> again.
\<close>

definition update_jira_issue ::
  "jira_server \<Rightarrow> ticket_id \<Rightarrow> item \<Rightarrow> config \<Rightarrow> tracker \<Rightarrow> (py_error + unit) \<times> tracker" where
  "update_jira_issue srv existing pr config w =
     (case item_downstream pr of
        Inl e \<Rightarrow> (Inl e, w)
      | Inr downstream \<Rightarrow>
     (let updates = (case d_pr_updates downstream of None \<Rightarrow> [] | Some us \<Rightarrow> us) in
      case item_suffix pr of
        Inl e \<Rightarrow> (Inl e, w)
      | Inr suffix \<Rightarrow>
     (case format_comment pr suffix config of
        Inl e \<Rightarrow> (Inl e, w)
      | Inr new_comment \<Rightarrow>
     (let (exists, w1) = issue_link_exists existing pr w;
          (comment_exist, w2) = comment_exists existing new_comment w1;
          w3 = (if \<not> exists
                then attach_link existing
                       \<lparr>link_url = item_url pr, link_title = ustr ''[PR] '' @ item_title pr\<rparr> w2
                else w2)
      in case (if \<not> comment_exist
               then (case item_jira_key pr of
                       Inl e \<Rightarrow> Inl e
                     | Inr _ \<Rightarrow> Inr (add_comment existing new_comment w3))
               else Inr w3) of
           Inl e \<Rightarrow> (Inl e, w3)
         | Inr w4 \<Rightarrow>
     (case (if any_has_key (ustr ''merge_transition'') updates \<and> py_in (ustr ''merged'') suffix
            then update_transition srv existing pr (ustr ''merge_transition'') w4
            else (Inr (), w4)) of
        (Inl e, w5) \<Rightarrow> (Inl e, w5)
      | (Inr _, w5) \<Rightarrow>
          (if any_has_key (ustr ''link_transition'') updates
              \<and> py_in (ustr ''mentioned'') new_comment \<and> \<not> exists
           then update_transition srv existing pr (ustr ''link_transition'') w5
           else (Inr (), w5)))))))"

subsection \<open>sync_with_jira\<close>

text \<open>
  The loop over \<open>pr.jira_key\<close>. Only \<open>JIRAError\<close> is caught around the search; an
  exception of \<open>update_jira_issue\<close> ends the loop.
\<close>

fun sync_keys :: "jira_server \<Rightarrow> item \<Rightarrow> config \<Rightarrow> ustring list \<Rightarrow> tracker \<Rightarrow> (py_error + unit) \<times> tracker" where
  "sync_keys srv pr config [] w = (Inr (), w)"
| "sync_keys srv pr config (jira_key # rest) w =
     (let query = ustr ''Key = '' @ jira_key in
      case search_issues srv query w of
        (Inl e, w1) \<Rightarrow>
          (if e = JIRAError
           then sync_keys srv pr config rest
                  (log_warning (ustr ''No JIRA issue exists for PR: '' @ item_title pr
                                @ ustr ''. Query: '' @ query) w1)
           else (Inl e, w1))
      | (Inr response, w1) \<Rightarrow>
          (if length response = 0 \<or> length response > 1
           then sync_keys srv pr config rest
                  (log_warning (str_nat (length response) @ ustr '' JIRA issues found for ''
                                @ item_title pr @ ustr ''. Query: '' @ query) w1)
           else (case update_jira_issue srv (response ! 0) pr config w1 of
                   (Inl e, w2) \<Rightarrow> (Inl e, w2)
                 | (Inr _, w2) \<Rightarrow> sync_keys srv pr config rest w2)))"

text \<open>
  \<open>sync_with_jira\<close> returns \<open>None\<close> or raises; it assigns \<open>jira_key\<close> on an
  \<open>Issue\<close>, so the item is returned as well. Iterating over a \<open>jira_key\<close> that is
  \<open>None\<close> raises \<open>TypeError\<close>.
\<close>

definition sync_with_jira ::
  "unicode_db \<Rightarrow> jira_server \<Rightarrow> item \<Rightarrow> config \<Rightarrow> tracker \<Rightarrow> (py_error + unit) \<times> item \<times> tracker" where
  "sync_with_jira U srv pr config w =
     (if cfg_testing config then (Inr (), pr, w)
      else case item_match pr of
        Inl e \<Rightarrow> (Inl e, pr, w)
      | Inr m \<Rightarrow>
          if m = [] then (Inr (), pr, w)
          else
            (let w1 = get_jira_client w in
             case (case pr of
                     IssueItem i \<Rightarrow>
                       (case getattr (issue_content i) of
                          Inl e \<Rightarrow> Inl e
                        | Inr content \<Rightarrow>
                            Inr (IssueItem (i\<lparr>issue_jira_key :=
                                   Assigned (matcher U (Some content) (issue_comments i))\<rparr>)))
                   | PRItem p \<Rightarrow> Inr pr) of
               Inl e \<Rightarrow> (Inl e, pr, w1)
             | Inr pr' \<Rightarrow>
                 (case item_jira_key pr' of
                    Inl e \<Rightarrow> (Inl e, pr', w1)
                  | Inr None \<Rightarrow> (Inl TypeError, pr', w1)
                  | Inr (Some keys) \<Rightarrow>
                      (case sync_keys srv pr' config keys w1 of (r, w2) \<Rightarrow> (r, pr', w2)))))"

subsection \<open>What a run did to the tracker\<close>

text \<open>
  The link attachments, the comment additions, the searches and the status changes
  among the calls made so far, in the order they were made.
\<close>

fun is_attach :: "api_call \<Rightarrow> bool" where
  "is_attach (AttachLink t u ti) = True"
| "is_attach c = False"

fun is_add_comment :: "api_call \<Rightarrow> bool" where
  "is_add_comment (AddComment t b) = True"
| "is_add_comment c = False"

fun search_query :: "api_call \<Rightarrow> ustring list" where
  "search_query (SearchIssues q) = [q]"
| "search_query c = []"

definition link_attachments :: "tracker \<Rightarrow> api_call list" where
  "link_attachments w = filter is_attach (calls w)"

definition comment_additions :: "tracker \<Rightarrow> api_call list" where
  "comment_additions w = filter is_add_comment (calls w)"

definition searched :: "tracker \<Rightarrow> ustring list" where
  "searched w = concat (map search_query (calls w))"




fun is_change_status :: "api_call \<Rightarrow> bool" where
  "is_change_status (ChangeStatus t s) = True"
| "is_change_status c = False"

definition status_changes :: "tracker \<Rightarrow> api_call list" where
  "status_changes w = filter is_change_status (calls w)"

section \<open>Example data\<close>

text \<open>Concrete values on which the theorems below are instantiated.\<close>

definition ex_db :: unicode_db where
  "ex_db = \<lparr>u_alnum = (\<lambda>c. False), u_decimal = (\<lambda>c. False)\<rparr>"

definition ex_comment :: "ustring \<Rightarrow> comment" where
  "ex_comment b = \<lparr>c_author = ustr ''hubber'', c_name = ustr ''Hub Ber'', c_body = b, c_id = 1,
     c_date_created = ustr ''2021-06-01'', c_changed = None\<rparr>"

definition ex_downstream :: downstream_cfg where
  "ex_downstream = \<lparr>d_project = ustr ''FACTORY'',
     d_pr_updates = Some [[ustr ''merge_transition'' \<mapsto> ustr ''Done''],
                          [ustr ''link_transition'' \<mapsto> ustr ''Doing'']]\<rparr>"

definition ex_config :: "bool \<Rightarrow> config" where
  "ex_config testing = \<lparr>cfg_testing = testing,
     cfg_map = [ustr ''github'' \<mapsto> [ustr ''org/repo'' \<mapsto> ex_downstream]],
     cfg_mapping = [ustr ''octocat'' \<mapsto> ustr ''5b10'']\<rparr>"

definition ex_pr :: "ustring \<Rightarrow> ustring \<Rightarrow> ustring list \<Rightarrow> PR" where
  "ex_pr title suffix keys = \<lparr>pr_source = ustr ''github'', pr_jira_key = keys, pr__title = title,
     pr_url = ustr ''http://gh/7'', pr_upstream = ustr ''org/repo'', pr_comments = [],
     pr_priority = None, pr_content = Some (ustr ''Fixes FACTORY-123''),
     pr_reporter = ustr ''hubber'', pr_assignee = [], pr_status = None, pr_id = ustr ''7'',
     pr_suffix = suffix, pr_match = keys, pr_downstream = ex_downstream\<rparr>"

definition ex_issue :: Issue where
  "ex_issue = \<lparr>issue_source = ustr ''github'', issue__title = ustr ''Crash'',
     issue_url = ustr ''http://gh/9'', issue_upstream = ustr ''org/repo'', issue_comments = [],
     issue_tags = [], issue_fixVersion = [None], issue_priority = None,
     issue_content = Unset, issue_reporter = Unset, issue_assignee = Unset,
     issue_status = Unset, issue_id = Unset, issue_upstream_id = Unset,
     issue_downstream = Unset, issue_jira_key = Unset, issue_match = Unset,
     issue_suffix = Unset\<rparr>"

definition ex_server :: jira_server where
  "ex_server = \<lparr>search = (\<lambda>w query. if query = ustr ''Key = FACTORY-123'' then Inr [1]
                                    else if query = ustr ''Key = ABC-1'' then Inr []
                                    else if query = ustr ''Key = DUP-2'' then Inr [2, 3]
                                    else Inl JIRAError),
                 reachable = (\<lambda>from to. True)\<rparr>"


definition ex_tracker :: tracker where
  "ex_tracker = \<lparr>tickets = (\<lambda>t. \<lparr>t_links = [], t_comments = [], t_status = ustr ''Open''\<rparr>),
                  calls = [], warnings = []\<rparr>"


section \<open>Properties\<close>

subsection \<open>Comment body trimming\<close>

text \<open>
  C8. For every comment body \<open>s\<close>, \<open>trimCommentBody s\<close> has length at most 65000; when
  \<open>s\<close> has at most 65000 characters the result is \<open>s\<close> itself, and otherwise it is
  the first 65000 characters of \<open>s\<close>. The function is total on strings: it returns a
  string in both cases and raises nothing.
\<close>

theorem trimCommentBody_spec:
  "length (trimCommentBody s) \<le> 65000
   \<and> (length s \<le> 65000 \<longrightarrow> trimCommentBody s = s)
   \<and> (65000 < length s \<longrightarrow> trimCommentBody s = take 65000 s)"
  by (simp add: trimCommentBody_def)

theorem trimCommentBody_spec_witness:
  "length (ustr ''LGTM'') \<le> 65000
   \<and> trimCommentBody (ustr ''LGTM'') = ustr ''LGTM''
   \<and> 65000 < length (replicate 65001 (120::nat))
   \<and> trimCommentBody (replicate 65001 120) = replicate 65000 120
   \<and> length (trimCommentBody (replicate 65001 120)) \<le> 65000"
  using trimCommentBody_spec [of "ustr ''LGTM''"] trimCommentBody_spec [of "replicate 65001 120"]
  by (simp add: ustr_def)

subsection \<open>Content scrubbing in the constructors\<close>

lemma encode_ascii_replace_ascii: "list_all (\<lambda>b. b < 128) (encode_ascii_replace s)"
  by (induction s) (simp_all add: encode_ascii_replace_def)

text \<open>Decoding never fails after the encoding with replacement.\<close>

lemma scrub_content_eq: "scrub_content c = Inr (remove_char 92 (encode_ascii_replace c))"
  by (simp add: scrub_content_def decode_ascii_def encode_ascii_replace_ascii)

lemma scrubbed_clean:
  "list_all (\<lambda>x. x < 128 \<and> x \<noteq> 92) (remove_char 92 (encode_ascii_replace c))"
  by (induction c) (simp_all add: remove_char_def encode_ascii_replace_def)

text \<open>
  C3. For every input content string \<open>c\<close> (not \<open>None\<close>), whatever code points it
  holds. Scrubbing never raises; it yields \<open>c\<close> with every code point of 128 or more
  replaced by one \<open>?\<close> (63) and with every backslash (92) removed, so each character
  of the result is below 128 and none is the backslash. The \<open>Issue\<close> constructor
  either returns an object whose \<open>content\<close> is that string, or raises the \<open>KeyError\<close>
  of a failed routing lookup, which happens only without a \<open>downstream\<close> argument.
  The \<open>PR\<close> constructor does the same, except that for the empty string it stores
  \<open>None\<close> as content.
\<close>

theorem content_ascii_no_backslash:
  "scrub_content c = Inr (filter (\<lambda>x. x \<noteq> 92) (map (\<lambda>x. if x < 128 then x else 63) c))
   \<and> list_all (\<lambda>x. x < 128 \<and> x \<noteq> 92)
         (filter (\<lambda>x. x \<noteq> 92) (map (\<lambda>x. if x < 128 then x else 63) c))
   \<and> (case Issue_init source title url upstream comments config tags fixVersion priority (Some c)
              reporter assignee status id' upstream_id downstream of
         Inl e \<Rightarrow> e = KeyError \<and> downstream = None
                  \<and> lookup_routing config source upstream = Inl KeyError
       | Inr i \<Rightarrow> issue_content i
                  = Assigned (filter (\<lambda>x. x \<noteq> 92) (map (\<lambda>x. if x < 128 then x else 63) c)))
   \<and> (case PR_init source jira_key title url upstream config comments priority (Some c) reporter
              assignee status id' suffix match downstream of
         Inl e \<Rightarrow> e = KeyError \<and> downstream = None
                  \<and> lookup_routing config source upstream = Inl KeyError
       | Inr p \<Rightarrow> pr_content p
                  = (if c = [] then None
                     else Some (filter (\<lambda>x. x \<noteq> 92) (map (\<lambda>x. if x < 128 then x else 63) c))))"
proof (intro conjI)
  show eq: "scrub_content c = Inr (filter (\<lambda>x. x \<noteq> 92) (map (\<lambda>x. if x < 128 then x else 63) c))"
    by (simp add: scrub_content_eq remove_char_def encode_ascii_replace_def)
  show "list_all (\<lambda>x. x < 128 \<and> x \<noteq> 92)
         (filter (\<lambda>x. x \<noteq> 92) (map (\<lambda>x. if x < 128 then x else 63) c))"
    using scrubbed_clean [of c] by (simp add: remove_char_def encode_ascii_replace_def)
  have routing: "lookup_routing config source upstream = Inl KeyError
                 \<or> (\<exists>d. lookup_routing config source upstream = Inr d)"
    by (simp add: lookup_routing_def split: option.splits)
  show "case Issue_init source title url upstream comments config tags fixVersion priority (Some c)
              reporter assignee status id' upstream_id downstream of
         Inl e \<Rightarrow> e = KeyError \<and> downstream = None
                  \<and> lookup_routing config source upstream = Inl KeyError
       | Inr i \<Rightarrow> issue_content i
                  = Assigned (filter (\<lambda>x. x \<noteq> 92) (map (\<lambda>x. if x < 128 then x else 63) c))"
    using routing by (cases downstream) (auto simp: Issue_init_def Let_def eq)
  show "case PR_init source jira_key title url upstream config comments priority (Some c) reporter
              assignee status id' suffix match downstream of
         Inl e \<Rightarrow> e = KeyError \<and> downstream = None
                  \<and> lookup_routing config source upstream = Inl KeyError
       | Inr p \<Rightarrow> pr_content p
                  = (if c = [] then None
                     else Some (filter (\<lambda>x. x \<noteq> 92) (map (\<lambda>x. if x < 128 then x else 63) c)))"
    using routing by (cases downstream) (auto simp: PR_init_def eq)
qed

theorem content_ascii_no_backslash_witness:
  "scrub_content [67, 58, 92, 100, 233, 106, 224, 8364] = Inr (ustr ''C:d?j??'')
   \<and> list_all (\<lambda>x. x < 128 \<and> x \<noteq> 92) (ustr ''C:d?j??'')
   \<and> Issue_init (ustr ''github'') (ustr ''Crash'') (ustr ''http://gh/9'') (ustr ''org/repo'') []
       (ex_config False) [] [None] None (Some [67, 58, 92, 100, 233, 106, 224, 8364])
       (ustr ''hubber'') [] (Some (ustr ''Open'')) 9 9 None
     = Inr (ex_issue\<lparr>issue_content := Assigned (ustr ''C:d?j??''),
                      issue_reporter := Assigned (ustr ''hubber''),
                      issue_assignee := Assigned [],
                      issue_status := Assigned (Some (ustr ''Open'')),
                      issue_id := Assigned (ustr ''9''),
                      issue_upstream_id := Assigned 9,
                      issue_downstream := Assigned ex_downstream\<rparr>)
   \<and> PR_init (ustr ''github'') [] (ustr ''Docs'') (ustr ''http://gh/7'') (ustr ''org/repo'')
       (ex_config False) [] None (Some [67, 58, 92, 100, 233, 106, 224, 8364])
       (ustr ''hubber'') [] None 7 (ustr ''opened'') [] None
     = Inr ((ex_pr (ustr ''Docs'') (ustr ''opened'') [])\<lparr>pr_content := Some (ustr ''C:d?j??'')\<rparr>)
   \<and> PR_init (ustr ''github'') [] (ustr ''Docs'') (ustr ''http://gh/7'') (ustr ''org/repo'')
       (ex_config False) [] None (Some []) (ustr ''hubber'') [] None 7 (ustr ''opened'') [] None
     = Inr ((ex_pr (ustr ''Docs'') (ustr ''opened'') [])\<lparr>pr_content := None\<rparr>)
   \<and> PR_init (ustr ''github'') [] (ustr ''Docs'') (ustr ''http://gh/7'') (ustr ''other/repo'')
       (ex_config False) [] None (Some [67, 58, 92, 100, 233, 106, 224, 8364])
       (ustr ''hubber'') [] None 7 (ustr ''opened'') [] None
     = Inl KeyError"
  using content_ascii_no_backslash
    [where c = "[67, 58, 92, 100, 233, 106, 224, 8364]" and source = "ustr ''github''"
       and upstream = "ustr ''org/repo''" and config = "ex_config False" and downstream = None]
    content_ascii_no_backslash
    [where c = "[]" and source = "ustr ''github''"
       and upstream = "ustr ''org/repo''" and config = "ex_config False" and downstream = None]
    content_ascii_no_backslash
    [where c = "[67, 58, 92, 100, 233, 106, 224, 8364]" and source = "ustr ''github''"
       and upstream = "ustr ''other/repo''" and config = "ex_config False" and downstream = None]
  by (simp add: Issue_init_def PR_init_def scrub_content_eq remove_char_def encode_ascii_replace_def
        lookup_routing_def ex_config_def ex_issue_def ex_pr_def ustr_def str_nat.simps)

subsection \<open>The ticket reference matcher\<close>

lemma all_data_nonempty:
  "acc \<noteq> [] \<Longrightarrow> foldl (\<lambda>all_data comment. all_data @ ustr '' '' @ c_body comment) acc cs \<noteq> []"
  by (induction cs arbitrary: acc) simp_all

lemmas matcher_eval = matcher_def ustr_def ticket_pattern_def char_then_def is_word_def is_digit_def

lemma star_then_Some_total: "star_then p Some s \<noteq> None"
  by (induction s) (auto split: option.splits)

lemma star_then_suffix:
  "star_then p k s = Some r \<Longrightarrow> \<exists>pre t. s = pre @ t \<and> k t = Some r"
proof (induction s)
  case Nil
  then show ?case by simp
next
  case (Cons c cs)
  show ?case
  proof (cases "p c \<and> star_then p k cs \<noteq> None")
    case True
    then have "star_then p k cs = Some r" using Cons.prems by auto
    then obtain pre t where "cs = pre @ t" "k t = Some r" using Cons.IH by blast
    then have "c # cs = (c # pre) @ t \<and> k t = Some r" by simp
    then show ?thesis by blast
  next
    case False
    then have "k (c # cs) = Some r" using Cons.prems by (auto split: if_splits option.splits)
    then have "c # cs = [] @ (c # cs) \<and> k (c # cs) = Some r" by simp
    then show ?thesis by blast
  qed
qed

lemma ticket_pattern_dash: "ticket_pattern U s \<noteq> None \<Longrightarrow> 45 \<in> set s"
proof -
  assume "ticket_pattern U s \<noteq> None"
  then obtain r where "star_then (is_word U) (char_then 45 (star_then (is_digit U) Some)) s = Some r"
    by (auto simp: ticket_pattern_def)
  then obtain pre t where s: "s = pre @ t" and "char_then 45 (star_then (is_digit U) Some) t = Some r"
    using star_then_suffix by blast
  then have "\<exists>t'. t = 45 # t'"
    by (auto simp: char_then_def split: list.splits if_splits)
  with s show ?thesis by auto
qed

lemma ticket_pattern_at_dash: "ticket_pattern U (45 # s) \<noteq> None"
  by (simp add: ticket_pattern_def is_word_def char_then_def star_then_Some_total)

text \<open>The first search of the final filter succeeds exactly on the strings that hold a dash.\<close>

lemma re_search_ticket_iff: "re_search_ticket U s \<longleftrightarrow> 45 \<in> set s"
proof (induction s)
  case Nil
  show ?case by (simp add: ticket_pattern_def char_then_def)
next
  case (Cons c cs)
  show ?case
    using Cons.IH ticket_pattern_dash [of U "c # cs"] ticket_pattern_at_dash [of U cs]
    by auto
qed

lemma re_search_digit_iff: "re_search_digit U s \<longleftrightarrow> (\<exists>c \<in> set s. is_digit U c)"
  by (induction s) auto


text \<open>
  C4. For every content (possibly \<open>None\<close>) and every list of comments, \<open>matcher\<close>
  returns a list, never \<open>None\<close>; the list has no duplicates, and each element has a
  length other than 1, is matched somewhere by \<open>[\w]*-[\d]*\<close> and holds a digit. On
  \<open>See FACTORY-123\<close> the result is exactly \<open>FACTORY-123\<close>; on
  \<open>dash alone - nothing\<close>, on \<open>None\<close> and on the empty string it is the empty list.
\<close>

theorem matcher_spec:
  "(\<exists>l. matcher U content comments = Some l \<and> distinct l
       \<and> (\<forall>m \<in> set l. length m \<noteq> 1 \<and> re_search_ticket U m \<and> re_search_digit U m))
   \<and> matcher U (Some (ustr ''See FACTORY-123'')) [] = Some [ustr ''FACTORY-123'']
   \<and> matcher U (Some (ustr ''dash alone - nothing'')) [] = Some []
   \<and> matcher U None [] = Some []
   \<and> matcher U (Some []) [] = Some []"
proof (intro conjI)
  have "foldl (\<lambda>all_data comment. all_data @ ustr '' '' @ c_body comment) (ustr '' '') (rev comments) \<noteq> []"
    by (rule all_data_nonempty) (simp add: ustr_def)
  then show "\<exists>l. matcher U content comments = Some l \<and> distinct l
       \<and> (\<forall>m \<in> set l. length m \<noteq> 1 \<and> re_search_ticket U m \<and> re_search_digit U m)"
    by (auto simp: matcher_def Let_def split: option.splits)
  show "matcher U (Some (ustr ''See FACTORY-123'')) [] = Some [ustr ''FACTORY-123'']"
    by (simp add: matcher_eval)
  show "matcher U (Some (ustr ''dash alone - nothing'')) [] = Some []"
    by (simp add: matcher_eval)
  show "matcher U None [] = Some []"
    by (simp add: matcher_eval)
  show "matcher U (Some []) [] = Some []"
    by (simp add: matcher_eval)
qed

theorem matcher_spec_witness:
  "matcher ex_db (Some (ustr ''A1- -9 B-2 '')) [ex_comment (ustr ''B-2''), ex_comment (ustr ''see X-1'')]
     = Some [ustr ''X-1'', ustr ''A1-'', ustr ''-9'', ustr ''B-2'']
   \<and> distinct [ustr ''X-1'', ustr ''A1-'', ustr ''-9'', ustr ''B-2'']
   \<and> re_search_ticket ex_db (ustr ''A1-'') \<and> re_search_digit ex_db (ustr ''A1-'')
   \<and> re_search_ticket ex_db (ustr ''-9'') \<and> re_search_digit ex_db (ustr ''-9'')
   \<and> matcher ex_db (Some (ustr ''See FACTORY-123'')) [] = Some [ustr ''FACTORY-123'']"
  using matcher_spec [of ex_db "Some (ustr ''A1- -9 B-2 '')"
                         "[ex_comment (ustr ''B-2''), ex_comment (ustr ''see X-1'')]"]
  by (simp add: matcher_eval ex_comment_def ex_db_def)

subsection \<open>The comment for a merged pull request\<close>

lemma suffix_merged_tests:
  "\<not> py_in (ustr ''closed'') (ustr ''merged'')"
  "\<not> py_in (ustr ''reopened'') (ustr ''merged'')"
  "py_in (ustr ''merged'') (ustr ''merged'')"
  by (simp_all add: ustr_def)

lemma remove_brackets:
  "remove_char 91 (remove_char 93 t) = filter (\<lambda>c. c \<noteq> 91 \<and> c \<noteq> 93) t"
  by (induction t) (simp_all add: remove_char_def)

text \<open>
  C9. For every PR whose suffix is the string \<open>merged\<close>, the comment built from that
  suffix is \<open>Merge request [T|U] was merged!\<close>, where \<open>T\<close> is the PR's \<open>title\<close>
  property with every \<open>[\<close> (91) and \<open>]\<close> (93) removed and \<open>U\<close> is the PR's URL.
\<close>

theorem format_comment_merged:
  "pr_suffix p = ustr ''merged'' \<Longrightarrow>
   format_comment (PRItem p) (pr_suffix p) config =
     Inr (ustr ''Merge request ['' @ filter (\<lambda>c. c \<noteq> 91 \<and> c \<noteq> 93) (PR_title p)
          @ ustr ''|'' @ pr_url p @ ustr ''] was merged!'')"
  by (simp add: format_comment_def Let_def suffix_merged_tests remove_brackets)

theorem format_comment_merged_witness:
  "pr_suffix (ex_pr (ustr ''Fix [WIP] parser'') (ustr ''merged'') []) = ustr ''merged''
   \<and> format_comment (PRItem (ex_pr (ustr ''Fix [WIP] parser'') (ustr ''merged'') []))
        (ustr ''merged'') (ex_config False)
      = Inr (ustr ''Merge request [org/repo Fix WIP parser|http://gh/7] was merged!'')"
  using format_comment_merged [of "ex_pr (ustr ''Fix [WIP] parser'') (ustr ''merged'') []" "ex_config False"]
  by (simp add: ex_pr_def PR_title_def ustr_def)

subsection \<open>The short-circuit of sync_with_jira\<close>

text \<open>
  C6. For every PR or Issue: if the configuration's testing flag is set, or the
  item's \<open>match\<close> is empty, \<open>sync_with_jira\<close> returns \<open>None\<close> at once. The tracker
  state is the one it was given: no client was obtained, no call was made, no ticket
  changed; the item is unchanged too.
\<close>

theorem sync_with_jira_short_circuit:
  "cfg_testing config \<or> item_match pr = Inr [] \<Longrightarrow>
   sync_with_jira U srv pr config w = (Inr (), pr, w)"
  by (auto simp: sync_with_jira_def)

theorem sync_with_jira_short_circuit_witness:
  "cfg_testing (ex_config True)
   \<and> sync_with_jira ex_db ex_server (IssueItem ex_issue) (ex_config True) ex_tracker
       = (Inr (), IssueItem ex_issue, ex_tracker)
   \<and> item_match (PRItem (ex_pr (ustr ''Docs'') (ustr ''opened'') [])) = Inr []
   \<and> sync_with_jira ex_db ex_server (PRItem (ex_pr (ustr ''Docs'') (ustr ''opened'') []))
         (ex_config False) ex_tracker
       = (Inr (), PRItem (ex_pr (ustr ''Docs'') (ustr ''opened'') []), ex_tracker)"
  using sync_with_jira_short_circuit [of "ex_config True" "IssueItem ex_issue" ex_db ex_server ex_tracker]
    sync_with_jira_short_circuit [of "ex_config False" "PRItem (ex_pr (ustr ''Docs'') (ustr ''opened'') [])" ex_db ex_server ex_tracker]
  by (simp add: ex_config_def ex_pr_def)

subsection \<open>Routing resolution in the constructors\<close>

text \<open>
  Where the constructors do look the routing entry up, a missing entry ends the
  construction with the \<open>KeyError\<close> of the lookup: always in \<open>PR\<close>, and in \<open>Issue\<close>
  when the content is not \<open>None\<close>.
\<close>

lemma missing_routing_propagates:
  assumes "lookup_routing config source upstream = Inl KeyError"
  shows "PR_init source jira_key title url upstream config comments priority content reporter
           assignee status id' suffix match None = Inl KeyError"
    and "Issue_init source title url upstream comments config tags fixVersion priority (Some c)
           reporter assignee status id' upstream_id None = Inl KeyError"
  using assms
  by (simp_all add: PR_init_def Issue_init_def Let_def scrub_content_eq split: option.splits)

text \<open>
  C7. Construction without a \<open>downstream\<close> argument is specified to fail whenever the
  configuration has no routing entry for the item. With an empty routing map the
  lookup raises \<open>KeyError\<close> and \<open>PR\<close> fails with it, but \<open>Issue\<close> constructed with
  content \<open>None\<close> and no \<open>downstream\<close> argument returns an object: the lookup sits
  inside \<open>if content is not None\<close> and is skipped.
\<close>

theorem Issue_init_null_content_skips_routing:
  "lookup_routing \<lparr>cfg_testing = False, cfg_map = Map.empty, cfg_mapping = Map.empty\<rparr>
      (ustr ''github'') (ustr ''org/repo'') = Inl KeyError
   \<and> PR_init (ustr ''github'') [] (ustr ''Docs'') (ustr ''http://gh/7'') (ustr ''org/repo'')
       \<lparr>cfg_testing = False, cfg_map = Map.empty, cfg_mapping = Map.empty\<rparr>
       [] None None (ustr ''hubber'') [] None 7 (ustr ''opened'') [] None
     = Inl KeyError
   \<and> Issue_init (ustr ''github'') (ustr ''Crash'') (ustr ''http://gh/9'') (ustr ''org/repo'') []
       \<lparr>cfg_testing = False, cfg_map = Map.empty, cfg_mapping = Map.empty\<rparr>
       [] [None] None None (ustr ''hubber'') [] (Some (ustr ''Open'')) 9 9 None
     = Inr ex_issue"
  by (simp add: lookup_routing_def Issue_init_def PR_init_def ex_issue_def)

subsection \<open>An Issue constructed with content None\<close>

text \<open>
  C10. For every \<open>Issue\<close> constructed with content \<open>None\<close>, construction succeeds
  and assigns only \<open>source\<close>, \<open>_title\<close>, \<open>url\<close>, \<open>upstream\<close>, \<open>comments\<close>, \<open>tags\<close>,
  \<open>fixVersion\<close> and \<open>priority\<close>; \<open>content\<close>, \<open>reporter\<close>, \<open>assignee\<close>, \<open>status\<close>,
  \<open>id\<close>, \<open>upstream_id\<close> and \<open>downstream\<close> are left unset. Reading any of the seven
  raises \<open>AttributeError\<close>; so does reading the routing entry, so does
  \<open>update_jira_issue\<close> on that issue (before any call to the tracker), and so does
  \<open>sync_with_jira\<close> outside test mode, also when a caller has assigned a nonempty
  \<open>match\<close> (then after the client was obtained, at the read of \<open>content\<close>).
\<close>

theorem Issue_init_null_content:
  "Issue_init source title url upstream comments config tags fixVersion priority None
      reporter assignee status id' upstream_id downstream
    = Inr \<lparr>issue_source = source, issue__title = title, issue_url = url,
           issue_upstream = upstream, issue_comments = comments, issue_tags = tags,
           issue_fixVersion = fixVersion, issue_priority = priority,
           issue_content = Unset, issue_reporter = Unset, issue_assignee = Unset,
           issue_status = Unset, issue_id = Unset, issue_upstream_id = Unset,
           issue_downstream = Unset, issue_jira_key = Unset, issue_match = Unset,
           issue_suffix = Unset\<rparr>
   \<and> (Issue_init source title url upstream comments config tags fixVersion priority None
        reporter assignee status id' upstream_id downstream = Inr i \<longrightarrow>
      getattr (issue_content i) = Inl AttributeError
      \<and> getattr (issue_reporter i) = Inl AttributeError
      \<and> getattr (issue_assignee i) = Inl AttributeError
      \<and> getattr (issue_status i) = Inl AttributeError
      \<and> getattr (issue_id i) = Inl AttributeError
      \<and> getattr (issue_upstream_id i) = Inl AttributeError
      \<and> getattr (issue_downstream i) = Inl AttributeError
      \<and> item_downstream (IssueItem i) = Inl AttributeError
      \<and> update_jira_issue srv existing
           (IssueItem (i\<lparr>issue_jira_key := k, issue_match := m, issue_suffix := s\<rparr>)) cfg w
            = (Inl AttributeError, w)
      \<and> (\<not> cfg_testing cfg \<longrightarrow>
            fst (sync_with_jira U srv (IssueItem i) cfg w) = Inl AttributeError)
      \<and> (\<not> cfg_testing cfg \<and> ms \<noteq> [] \<longrightarrow>
            sync_with_jira U srv (IssueItem (i\<lparr>issue_match := Assigned ms\<rparr>)) cfg w
              = (Inl AttributeError, IssueItem (i\<lparr>issue_match := Assigned ms\<rparr>),
                 get_jira_client w)))"
proof (intro conjI impI)
  show "Issue_init source title url upstream comments config tags fixVersion priority None
      reporter assignee status id' upstream_id downstream
    = Inr \<lparr>issue_source = source, issue__title = title, issue_url = url,
           issue_upstream = upstream, issue_comments = comments, issue_tags = tags,
           issue_fixVersion = fixVersion, issue_priority = priority,
           issue_content = Unset, issue_reporter = Unset, issue_assignee = Unset,
           issue_status = Unset, issue_id = Unset, issue_upstream_id = Unset,
           issue_downstream = Unset, issue_jira_key = Unset, issue_match = Unset,
           issue_suffix = Unset\<rparr>"
    by (simp add: Issue_init_def)
next
  assume "Issue_init source title url upstream comments config tags fixVersion priority None
        reporter assignee status id' upstream_id downstream = Inr i"
  then have u: "issue_content i = Unset" "issue_reporter i = Unset" "issue_assignee i = Unset"
    "issue_status i = Unset" "issue_id i = Unset" "issue_upstream_id i = Unset"
    "issue_downstream i = Unset" "issue_match i = Unset"
    by (auto simp: Issue_init_def)
  show "getattr (issue_content i) = Inl AttributeError" by (simp add: u)
  show "getattr (issue_reporter i) = Inl AttributeError" by (simp add: u)
  show "getattr (issue_assignee i) = Inl AttributeError" by (simp add: u)
  show "getattr (issue_status i) = Inl AttributeError" by (simp add: u)
  show "getattr (issue_id i) = Inl AttributeError" by (simp add: u)
  show "getattr (issue_upstream_id i) = Inl AttributeError" by (simp add: u)
  show "getattr (issue_downstream i) = Inl AttributeError" by (simp add: u)
  show "item_downstream (IssueItem i) = Inl AttributeError" by (simp add: u)
  show "update_jira_issue srv existing
          (IssueItem (i\<lparr>issue_jira_key := k, issue_match := m, issue_suffix := s\<rparr>)) cfg w
            = (Inl AttributeError, w)"
    by (simp add: update_jira_issue_def u)
  show "fst (sync_with_jira U srv (IssueItem i) cfg w) = Inl AttributeError"
    if "\<not> cfg_testing cfg"
    using that by (simp add: sync_with_jira_def u)
  show "sync_with_jira U srv (IssueItem (i\<lparr>issue_match := Assigned ms\<rparr>)) cfg w
              = (Inl AttributeError, IssueItem (i\<lparr>issue_match := Assigned ms\<rparr>),
                 get_jira_client w)"
    if "\<not> cfg_testing cfg \<and> ms \<noteq> []"
    using that by (simp add: sync_with_jira_def u Let_def)
qed

theorem Issue_init_null_content_witness:
  "Issue_init (ustr ''github'') (ustr ''Crash'') (ustr ''http://gh/9'') (ustr ''org/repo'') []
       (ex_config False) [] [None] None None (ustr ''hubber'') [] (Some (ustr ''Open'')) 9 9
       (Some ex_downstream)
     = Inr ex_issue
   \<and> getattr (issue_downstream ex_issue) = Inl AttributeError
   \<and> \<not> cfg_testing (ex_config False)
   \<and> fst (sync_with_jira ex_db ex_server (IssueItem ex_issue) (ex_config False) ex_tracker)
       = Inl AttributeError
   \<and> [ustr ''FACTORY-123''] \<noteq> []
   \<and> sync_with_jira ex_db ex_server
         (IssueItem (ex_issue\<lparr>issue_match := Assigned [ustr ''FACTORY-123'']\<rparr>))
         (ex_config False) ex_tracker
       = (Inl AttributeError, IssueItem (ex_issue\<lparr>issue_match := Assigned [ustr ''FACTORY-123'']\<rparr>),
          get_jira_client ex_tracker)"
  using Issue_init_null_content
    [where source = "ustr ''github''" and title = "ustr ''Crash''" and url = "ustr ''http://gh/9''"
       and upstream = "ustr ''org/repo''" and comments = "[]" and config = "ex_config False"
       and tags = "[]" and fixVersion = "[None]" and priority = None
       and reporter = "ustr ''hubber''" and assignee = "[]" and status = "Some (ustr ''Open'')"
       and id' = 9 and upstream_id = 9 and downstream = "Some ex_downstream"
       and i = ex_issue and cfg = "ex_config False" and U = ex_db and srv = ex_server
       and w = ex_tracker and ms = "[ustr ''FACTORY-123'']"]
  by (simp add: ex_issue_def ex_config_def)

subsection \<open>Idempotent update of a ticket\<close>

lemma link_loop_iff: "link_loop ls u \<longleftrightarrow> (\<exists>l \<in> set ls. link_url l = u)"
  by (induction ls) auto

lemma comment_loop_iff: "comment_loop cs c \<longleftrightarrow> c \<in> set cs"
  by (induction cs) auto


text \<open>What each operation on the tracker changes, and what it leaves alone.\<close>

lemma log_call_simps [simp]:
  "tickets (log_call c w) = tickets w"
  "calls (log_call c w) = calls w @ [c]"
  "warnings (log_call c w) = warnings w"
  by (simp_all add: log_call_def)

lemma log_warning_simps [simp]:
  "tickets (log_warning m w) = tickets w"
  "calls (log_warning m w) = calls w"
  "warnings (log_warning m w) = warnings w @ [m]"
  by (simp_all add: log_warning_def)

lemma attach_link_simps [simp]:
  "calls (attach_link t l w) = calls w @ [AttachLink t (link_url l) (link_title l)]"
  "warnings (attach_link t l w) = warnings w"
  "t_links (tickets (attach_link t l w) t') = (if t' = t then t_links (tickets w t) @ [l] else t_links (tickets w t'))"
  "t_comments (tickets (attach_link t l w) t') = t_comments (tickets w t')"
  "t_status (tickets (attach_link t l w) t') = t_status (tickets w t')"
  by (simp_all add: attach_link_def)

lemma add_comment_simps [simp]:
  "calls (add_comment t b w) = calls w @ [AddComment t b]"
  "warnings (add_comment t b w) = warnings w"
  "t_comments (tickets (add_comment t b w) t') = (if t' = t then t_comments (tickets w t) @ [b] else t_comments (tickets w t'))"
  "t_links (tickets (add_comment t b w) t') = t_links (tickets w t')"
  "t_status (tickets (add_comment t b w) t') = t_status (tickets w t')"
  by (simp_all add: add_comment_def)

lemma change_status_simps [simp]:
  "calls (change_status srv t s w) = calls w @ [ChangeStatus t s]"
  "warnings (change_status srv t s w) = warnings w"
  "t_comments (tickets (change_status srv t s w) t') = t_comments (tickets w t')"
  "t_links (tickets (change_status srv t s w) t') = t_links (tickets w t')"
  by (simp_all add: change_status_def)

text \<open>On a PR, \<open>update_transition\<close> raises nothing and makes at most one status change.\<close>

lemma update_transition_PR:
  "\<exists>w'. update_transition srv t (PRItem p) ty w = (Inr (), w')
        \<and> (w' = w \<or> (\<exists>s. w' = change_status srv t s w))"
  by (auto simp: update_transition_def Let_def split: list.splits option.splits dest: filter_eq_ConsD)


lemma observers_change_status [simp]:
  "link_attachments (change_status srv t s w) = link_attachments w"
  "comment_additions (change_status srv t s w) = comment_additions w"
  "searched (change_status srv t s w) = searched w"
  by (simp_all add: link_attachments_def comment_additions_def searched_def)

text \<open>
  One run of \<open>update_jira_issue\<close> on a PR: it raises nothing, and it adds the link
  and the comment exactly when the two existence checks fail.
\<close>

lemma update_jira_issue_PR:
  assumes c: "format_comment (PRItem p) (pr_suffix p) config = Inr c"
  shows "\<exists>w'. update_jira_issue srv t (PRItem p) config w = (Inr (), w')
     \<and> t_links (tickets w' t) = t_links (tickets w t)
          @ (if link_loop (t_links (tickets w t)) (pr_url p) then []
             else [\<lparr>link_url = pr_url p, link_title = ustr ''[PR] '' @ PR_title p\<rparr>])
     \<and> t_comments (tickets w' t) = t_comments (tickets w t)
          @ (if comment_loop (t_comments (tickets w t)) c then [] else [c])
     \<and> link_attachments w' = link_attachments w
          @ (if link_loop (t_links (tickets w t)) (pr_url p) then []
             else [AttachLink t (pr_url p) (ustr ''[PR] '' @ PR_title p)])
     \<and> comment_additions w' = comment_additions w
          @ (if comment_loop (t_comments (tickets w t)) c then [] else [AddComment t c])
     \<and> searched w' = searched w
     \<and> warnings w' = warnings w"
proof -
  define ex where "ex = link_loop (t_links (tickets w t)) (pr_url p)"
  define cex where "cex = comment_loop (t_comments (tickets w t)) c"
  define updates where "updates = (case d_pr_updates (pr_downstream p) of None \<Rightarrow> [] | Some us \<Rightarrow> us)"
  define w2 where "w2 = log_call (Comments t) (log_call (RemoteLinks t) w)"
  define w3 where "w3 = (if \<not> ex then attach_link t \<lparr>link_url = pr_url p, link_title = ustr ''[PR] '' @ PR_title p\<rparr> w2 else w2)"
  define w4 where "w4 = (if \<not> cex then add_comment t c w3 else w3)"
  define r5 where "r5 = (if any_has_key (ustr ''merge_transition'') updates \<and> py_in (ustr ''merged'') (pr_suffix p)
            then update_transition srv t (PRItem p) (ustr ''merge_transition'') w4
            else (Inr (), w4))"
  obtain w5 where w5: "r5 = (Inr (), w5)" "w5 = w4 \<or> (\<exists>s. w5 = change_status srv t s w4)"
    using update_transition_PR [of srv t p "ustr ''merge_transition''" w4]
    unfolding r5_def by (cases "any_has_key (ustr ''merge_transition'') updates \<and> py_in (ustr ''merged'') (pr_suffix p)") auto
  define r6 where "r6 = (if any_has_key (ustr ''link_transition'') updates
              \<and> py_in (ustr ''mentioned'') c \<and> \<not> ex
           then update_transition srv t (PRItem p) (ustr ''link_transition'') w5
           else (Inr (), w5))"
  obtain w6 where w6: "r6 = (Inr (), w6)" "w6 = w5 \<or> (\<exists>s. w6 = change_status srv t s w5)"
    using update_transition_PR [of srv t p "ustr ''link_transition''" w5]
    unfolding r6_def by (cases "any_has_key (ustr ''link_transition'') updates
              \<and> py_in (ustr ''mentioned'') c \<and> \<not> ex") auto
  have "update_jira_issue srv t (PRItem p) config w =
          (case r5 of
             (Inl e, w5) \<Rightarrow> (Inl e, w5)
           | (Inr _, w5) \<Rightarrow>
               (if any_has_key (ustr ''link_transition'') updates
                   \<and> py_in (ustr ''mentioned'') c \<and> \<not> ex
                then update_transition srv t (PRItem p) (ustr ''link_transition'') w5
                else (Inr (), w5)))"
    unfolding ex_def cex_def updates_def w2_def w3_def w4_def r5_def update_jira_issue_def
    by (simp add: c issue_link_exists_def comment_exists_def remote_links_def
          client_comments_def Let_def)
  then have run: "update_jira_issue srv t (PRItem p) config w = (Inr (), w6)"
    using w5(1) w6(1) by (simp add: r6_def)
  have l4: "t_links (tickets w4 t) = t_links (tickets w t) @ (if ex then [] else [\<lparr>link_url = pr_url p, link_title = ustr ''[PR] '' @ PR_title p\<rparr>])"
    and c4: "t_comments (tickets w4 t) = t_comments (tickets w t) @ (if cex then [] else [c])"
    and a4: "link_attachments w4 = link_attachments w @ (if ex then [] else [AttachLink t (pr_url p) (ustr ''[PR] '' @ PR_title p)])"
    and m4: "comment_additions w4 = comment_additions w @ (if cex then [] else [AddComment t c])"
    and s4: "searched w4 = searched w" and g4: "warnings w4 = warnings w"
    by (simp_all add: w4_def w3_def w2_def link_attachments_def comment_additions_def searched_def)
  have "t_links (tickets w6 t) = t_links (tickets w4 t)" "t_comments (tickets w6 t) = t_comments (tickets w4 t)"
    "link_attachments w6 = link_attachments w4" "comment_additions w6 = comment_additions w4"
    "searched w6 = searched w4" "warnings w6 = warnings w4"
    using w5(2) w6(2) by auto
  with run l4 c4 a4 m4 s4 g4 show ?thesis
    unfolding ex_def cex_def by simp
qed

text \<open>
  C1. For every PR and every tracker state \<open>w0\<close>, let \<open>w1\<close> be the state after one run
  of \<open>update_jira_issue\<close> on a ticket and \<open>w2\<close> the state after a second run from
  \<open>w1\<close>. Both runs return normally. The first run attaches the link exactly when no
  remote link of the ticket has the PR's URL, and adds the comment exactly when no
  comment of the ticket has the computed body. The second run attaches no link and adds
  no comment: the attachments and additions among the calls are those of \<open>w1\<close>, and
  the ticket's links and comments are those of \<open>w1\<close>.
\<close>

theorem update_jira_issue_idempotent:
  assumes c: "format_comment (PRItem p) (pr_suffix p) config = Inr c"
  shows "let w1 = snd (update_jira_issue srv t (PRItem p) config w0);
             w2 = snd (update_jira_issue srv t (PRItem p) config w1)
         in fst (update_jira_issue srv t (PRItem p) config w0) = Inr ()
          \<and> fst (update_jira_issue srv t (PRItem p) config w1) = Inr ()
          \<and> link_attachments w1 = link_attachments w0
               @ (if \<exists>l \<in> set (t_links (tickets w0 t)). link_url l = pr_url p then []
                  else [AttachLink t (pr_url p) (ustr ''[PR] '' @ PR_title p)])
          \<and> comment_additions w1 = comment_additions w0
               @ (if c \<in> set (t_comments (tickets w0 t)) then [] else [AddComment t c])
          \<and> link_attachments w2 = link_attachments w1
          \<and> comment_additions w2 = comment_additions w1
          \<and> t_links (tickets w2 t) = t_links (tickets w1 t)
          \<and> t_comments (tickets w2 t) = t_comments (tickets w1 t)"
proof -
  obtain w1 where w1: "update_jira_issue srv t (PRItem p) config w0 = (Inr (), w1)"
    and l1: "t_links (tickets w1 t) = t_links (tickets w0 t)
          @ (if link_loop (t_links (tickets w0 t)) (pr_url p) then []
             else [\<lparr>link_url = pr_url p, link_title = ustr ''[PR] '' @ PR_title p\<rparr>])"
    and c1: "t_comments (tickets w1 t) = t_comments (tickets w0 t)
          @ (if comment_loop (t_comments (tickets w0 t)) c then [] else [c])"
    and a1: "link_attachments w1 = link_attachments w0
          @ (if link_loop (t_links (tickets w0 t)) (pr_url p) then []
             else [AttachLink t (pr_url p) (ustr ''[PR] '' @ PR_title p)])"
    and m1: "comment_additions w1 = comment_additions w0
          @ (if comment_loop (t_comments (tickets w0 t)) c then [] else [AddComment t c])"
    using update_jira_issue_PR [OF c, of srv t w0] by blast
  obtain w2 where w2: "update_jira_issue srv t (PRItem p) config w1 = (Inr (), w2)"
    and l2: "t_links (tickets w2 t) = t_links (tickets w1 t)
          @ (if link_loop (t_links (tickets w1 t)) (pr_url p) then []
             else [\<lparr>link_url = pr_url p, link_title = ustr ''[PR] '' @ PR_title p\<rparr>])"
    and c2: "t_comments (tickets w2 t) = t_comments (tickets w1 t)
          @ (if comment_loop (t_comments (tickets w1 t)) c then [] else [c])"
    and a2: "link_attachments w2 = link_attachments w1
          @ (if link_loop (t_links (tickets w1 t)) (pr_url p) then []
             else [AttachLink t (pr_url p) (ustr ''[PR] '' @ PR_title p)])"
    and m2: "comment_additions w2 = comment_additions w1
          @ (if comment_loop (t_comments (tickets w1 t)) c then [] else [AddComment t c])"
    using update_jira_issue_PR [OF c, of srv t w1] by blast
  have linked: "link_loop (t_links (tickets w1 t)) (pr_url p)"
    unfolding l1 by (auto simp: link_loop_iff)
  have commented: "comment_loop (t_comments (tickets w1 t)) c"
    unfolding c1 by (auto simp: comment_loop_iff)
  show ?thesis
    using a1 m1 l2 c2 a2 m2 linked commented
    by (simp add: w1 w2 link_loop_iff comment_loop_iff)
qed

lemma ex_pr_simps:
  "pr_url (ex_pr a b ks) = ustr ''http://gh/7''"
  "pr_suffix (ex_pr a b ks) = b"
  "pr__title (ex_pr a b ks) = a"
  "pr_upstream (ex_pr a b ks) = ustr ''org/repo''"
  "pr_reporter (ex_pr a b ks) = ustr ''hubber''"
  "pr_downstream (ex_pr a b ks) = ex_downstream"
  "pr_jira_key (ex_pr a b ks) = ks"
  "pr_match (ex_pr a b ks) = ks"
  by (simp_all add: ex_pr_def)

lemma ex_tracker_simps:
  "tickets ex_tracker t = \<lparr>t_links = [], t_comments = [], t_status = ustr ''Open''\<rparr>"
  "calls ex_tracker = []"
  "warnings ex_tracker = []"
  by (simp_all add: ex_tracker_def)

theorem update_jira_issue_idempotent_witness:
  "format_comment (PRItem (ex_pr (ustr ''Docs'') (ustr ''opened'') [])) (ustr ''opened'') (ex_config False)
     = Inr (ustr ''hubber mentioned this issue in merge request [org/repo Docs| http://gh/7].'')
   \<and> link_attachments (snd (update_jira_issue ex_server 1
         (PRItem (ex_pr (ustr ''Docs'') (ustr ''opened'') [])) (ex_config False) ex_tracker))
       = [AttachLink 1 (ustr ''http://gh/7'') (ustr ''[PR] [org/repo] Docs'')]
   \<and> link_attachments (snd (update_jira_issue ex_server 1
         (PRItem (ex_pr (ustr ''Docs'') (ustr ''opened'') [])) (ex_config False)
         (snd (update_jira_issue ex_server 1
            (PRItem (ex_pr (ustr ''Docs'') (ustr ''opened'') [])) (ex_config False) ex_tracker))))
       = [AttachLink 1 (ustr ''http://gh/7'') (ustr ''[PR] [org/repo] Docs'')]
   \<and> comment_additions (snd (update_jira_issue ex_server 1
         (PRItem (ex_pr (ustr ''Docs'') (ustr ''opened'') [])) (ex_config False)
         (snd (update_jira_issue ex_server 1
            (PRItem (ex_pr (ustr ''Docs'') (ustr ''opened'') [])) (ex_config False) ex_tracker))))
       = [AddComment 1 (ustr ''hubber mentioned this issue in merge request [org/repo Docs| http://gh/7].'')]"
proof -
  have c: "format_comment (PRItem (ex_pr (ustr ''Docs'') (ustr ''opened'') [])) 
             (pr_suffix (ex_pr (ustr ''Docs'') (ustr ''opened'') [])) (ex_config False)
     = Inr (ustr ''hubber mentioned this issue in merge request [org/repo Docs| http://gh/7].'')"
    by (simp add: format_comment_def get_jira_username_from_github_def ex_pr_simps ex_config_def
          PR_title_def remove_char_def ustr_def)
  show ?thesis
    using c update_jira_issue_idempotent [OF c, of ex_server 1 ex_tracker]
    by (simp add: Let_def ex_pr_simps ex_tracker_simps PR_title_def link_attachments_def
          comment_additions_def ustr_def)
qed

subsection \<open>Candidate keys are tried one by one\<close>











subsection \<open>The link transition\<close>

lemma update_transition_PR_calls:
  "calls (snd (update_transition srv t (PRItem p) ty w))
     = calls w @ (case filter (\<lambda>transition. transition ty \<noteq> None)
                         (case d_pr_updates (pr_downstream p) of None \<Rightarrow> [] | Some us \<Rightarrow> us) of
                    [] \<Rightarrow> []
                  | first # rest \<Rightarrow> [ChangeStatus t (the (first ty))])"
  by (auto simp: update_transition_def Let_def split: list.splits option.splits dest: filter_eq_ConsD)

lemma any_has_key_filter:
  "any_has_key name updates \<longleftrightarrow> filter (\<lambda>transition. transition name \<noteq> None) updates \<noteq> []"
  by (induction updates) (auto simp: any_has_key_def)

lemma update_transition_PR_fires:
  assumes "any_has_key ty (case d_pr_updates (pr_downstream p) of None \<Rightarrow> [] | Some us \<Rightarrow> us)"
  shows "\<exists>s. update_transition srv t (PRItem p) ty w = (Inr (), change_status srv t s w)"
  using assms
  by (auto simp: update_transition_def any_has_key_filter Let_def
      split: list.splits option.splits dest: filter_eq_ConsD)

text \<open>
  The status changes of one run on a PR: one for the merge transition when it is
  configured and the suffix contains \<open>merged\<close>, then one for the link transition when it
  is configured, the comment contains \<open>mentioned\<close> and no link to the URL existed.
\<close>

lemma update_jira_issue_PR_status_changes:
  assumes c: "format_comment (PRItem p) (pr_suffix p) config = Inr c"
  defines "updates \<equiv> (case d_pr_updates (pr_downstream p) of None \<Rightarrow> [] | Some us \<Rightarrow> us)"
  shows "length (status_changes (snd (update_jira_issue srv t (PRItem p) config w)))
     = length (status_changes w)
       + (if any_has_key (ustr ''merge_transition'') updates \<and> py_in (ustr ''merged'') (pr_suffix p)
          then 1 else 0)
       + (if any_has_key (ustr ''link_transition'') updates \<and> py_in (ustr ''mentioned'') c
             \<and> \<not> link_loop (t_links (tickets w t)) (pr_url p)
          then 1 else 0)"
proof -
  define ex where "ex = link_loop (t_links (tickets w t)) (pr_url p)"
  define cex where "cex = comment_loop (t_comments (tickets w t)) c"
  define w2 where "w2 = log_call (Comments t) (log_call (RemoteLinks t) w)"
  define w3 where "w3 = (if \<not> ex then attach_link t \<lparr>link_url = pr_url p, link_title = ustr ''[PR] '' @ PR_title p\<rparr> w2 else w2)"
  define w4 where "w4 = (if \<not> cex then add_comment t c w3 else w3)"
  define mcond where "mcond \<longleftrightarrow> any_has_key (ustr ''merge_transition'') updates \<and> py_in (ustr ''merged'') (pr_suffix p)"
  define lcond where "lcond \<longleftrightarrow> any_has_key (ustr ''link_transition'') updates \<and> py_in (ustr ''mentioned'') c \<and> \<not> ex"
  define r5 where "r5 = (if mcond
            then update_transition srv t (PRItem p) (ustr ''merge_transition'') w4
            else (Inr (), w4))"
  obtain w5 where w5: "r5 = (Inr (), w5)"
    and n5: "length (status_changes w5) = length (status_changes w4) + (if mcond then 1 else 0)"
  proof (cases mcond)
    case True
    then obtain s where "update_transition srv t (PRItem p) (ustr ''merge_transition'') w4
        = (Inr (), change_status srv t s w4)"
      using update_transition_PR_fires [of "ustr ''merge_transition''" p srv t w4]
      unfolding mcond_def updates_def by blast
    with True that [of "change_status srv t s w4"] show ?thesis
      by (simp add: r5_def status_changes_def)
  next
    case False
    with that [of w4] show ?thesis by (simp add: r5_def)
  qed
  define r6 where "r6 = (if lcond
           then update_transition srv t (PRItem p) (ustr ''link_transition'') w5
           else (Inr (), w5))"
  obtain w6 where w6: "r6 = (Inr (), w6)"
    and n6: "length (status_changes w6) = length (status_changes w5) + (if lcond then 1 else 0)"
  proof (cases lcond)
    case True
    then obtain s where "update_transition srv t (PRItem p) (ustr ''link_transition'') w5
        = (Inr (), change_status srv t s w5)"
      using update_transition_PR_fires [of "ustr ''link_transition''" p srv t w5]
      unfolding lcond_def updates_def by blast
    with True that [of "change_status srv t s w5"] show ?thesis
      by (simp add: r6_def status_changes_def)
  next
    case False
    with that [of w5] show ?thesis by (simp add: r6_def)
  qed
  have "update_jira_issue srv t (PRItem p) config w =
          (case r5 of
             (Inl e, w5) \<Rightarrow> (Inl e, w5)
           | (Inr _, w5) \<Rightarrow>
               (if lcond
                then update_transition srv t (PRItem p) (ustr ''link_transition'') w5
                else (Inr (), w5)))"
    unfolding ex_def cex_def updates_def w2_def w3_def w4_def r5_def mcond_def lcond_def
      update_jira_issue_def
    by (simp add: c issue_link_exists_def comment_exists_def remote_links_def
          client_comments_def Let_def)
  then have run: "update_jira_issue srv t (PRItem p) config w = (Inr (), w6)"
    using w5 w6 by (simp add: r6_def)
  have "status_changes w4 = status_changes w"
    by (simp add: w4_def w3_def w2_def status_changes_def)
  with run n5 n6 show ?thesis
    by (simp add: mcond_def lcond_def ex_def)
qed

text \<open>
  C2. The link transition is specified for a run whose comment is the generic template,
  on a ticket without a link to the PR's URL, with \<open>link_transition\<close> configured. The
  code tests \<open>'mentioned' in new_comment\<close>, and the comment holds the PR's title: a
  closed PR whose title contains \<open>mentioned\<close>, on a ticket without a link to its URL
  and with \<open>link_transition\<close> configured, gets the closed template as its comment and
  the status change of the link transition all the same. The same PR with a title
  without that word gets no status change.
\<close>

theorem link_transition_on_closed_template:
  "format_comment (PRItem (ex_pr (ustr ''Undo mentioned fix'') (ustr ''closed'') []))
       (pr_suffix (ex_pr (ustr ''Undo mentioned fix'') (ustr ''closed'') [])) (ex_config False)
     = Inr (ustr ''Merge request [org/repo Undo mentioned fix|http://gh/7] was closed.'')
   \<and> calls (snd (update_jira_issue ex_server 1
         (PRItem (ex_pr (ustr ''Undo mentioned fix'') (ustr ''closed'') [])) (ex_config False) ex_tracker))
     = [RemoteLinks 1, Comments 1,
        AttachLink 1 (ustr ''http://gh/7'') (ustr ''[PR] [org/repo] Undo mentioned fix''),
        AddComment 1 (ustr ''Merge request [org/repo Undo mentioned fix|http://gh/7] was closed.''),
        ChangeStatus 1 (ustr ''Doing'')]
   \<and> calls (snd (update_jira_issue ex_server 1
         (PRItem (ex_pr (ustr ''Undo fix'') (ustr ''closed'') [])) (ex_config False) ex_tracker))
     = [RemoteLinks 1, Comments 1,
        AttachLink 1 (ustr ''http://gh/7'') (ustr ''[PR] [org/repo] Undo fix''),
        AddComment 1 (ustr ''Merge request [org/repo Undo fix|http://gh/7] was closed.'')]"
  by (simp add: update_jira_issue_def update_transition_def format_comment_def
        get_jira_username_from_github_def issue_link_exists_def comment_exists_def
        remote_links_def client_comments_def any_has_key_def Let_def
        ex_pr_simps ex_tracker_simps ex_config_def ex_downstream_def PR_title_def remove_char_def
        ustr_def)

end
